theory Spec2Isabelle
  imports Main
begin

section \<open>Values and the two variants of \<open>Result\<close>\<close>

text \<open>
  The values a \<open>Result\<close> can hold are the values of the host language. The model keeps the
  ones the combinators can tell apart: \<open>undefined\<close> (which the factories \<open>Result.Ok\<close> and
  \<open>Result.Err\<close> and the optional parameters test for), a sentinel, booleans, numbers
  (integers only), strings, \<open>Error\<close> objects (identified by their message) and \<open>Result\<close>
  instances themselves (which \<open>unfold\<close> tests for with \<open>instanceof\<close>). Functions are not
  among the payloads; they are the callbacks of the combinators.

  \<open>Ok\<close> and \<open>Err\<close> are the two subclasses of the abstract class \<open>Result\<close>; the constructors
  below are \<open>new Ok(_value)\<close> and \<open>new Err(_error)\<close>.
\<close>

datatype val =
    Undefined
  | Sentinel
  | JBool bool
  | JNum int
  | JStr string
  | JError string
  | JResult result
and result =
    Ok val
  | Err val

text \<open>Modelled from the spec: the constant \<open>EMPTY\<close> is imported from a module that is not
  among the sources. The spec calls it the empty sentinel, "a unit-like placeholder value
  used when a Result carries no meaningful payload": a value of its own, which is neither
  \<open>undefined\<close> nor a \<open>Result\<close>. The types \<open>Mapper\<close>, \<open>Predicate\<close> and \<open>Assertion\<close> of the
  same module are the function types their uses show.\<close>

definition EMPTY :: val where
  "EMPTY = Sentinel"

text \<open>The getters \<open>value\<close> of \<open>Ok\<close> and \<open>error\<close> of \<open>Err\<close>; reading a property an object
  does not have gives \<open>undefined\<close>.\<close>

fun get_value :: "result \<Rightarrow> val" where
  "get_value (Ok v) = v"
| "get_value (Err e) = Undefined"

fun get_error :: "result \<Rightarrow> val" where
  "get_error (Ok v) = Undefined"
| "get_error (Err e) = e"

fun instanceof_Ok :: "result \<Rightarrow> bool" where
  "instanceof_Ok (Ok v) = True"
| "instanceof_Ok (Err e) = False"

fun instanceof_Err :: "result \<Rightarrow> bool" where
  "instanceof_Err (Ok v) = False"
| "instanceof_Err (Err e) = True"

fun instanceof_Result :: "val \<Rightarrow> bool" where
  "instanceof_Result (JResult r) = True"
| "instanceof_Result _ = False"

text \<open>\<open>Result.ERROR\<close>: the two variant-misuse errors, and the error of \<open>toUnion\<close>.\<close>

definition ERROR_take :: val where
  "ERROR_take = JError ''Trying to take value from `Err` instance''"

definition ERROR_takeErr :: val where
  "ERROR_takeErr = JError ''Trying to take error from `Ok` instance''"

definition ERROR_toUnion :: val where
  "ERROR_toUnion = JError ''trying to convert to union a object thats not Ok or Err instance''"

section \<open>Computations: thrown values and side effects\<close>

text \<open>
  A call of a function of the host language may change the world outside the algebra
  (a log, a counter) and either returns a value or throws one. A computation is therefore
  a function from the world before the call to the outcome (\<open>Inl\<close> the thrown value,
  \<open>Inr\<close> the returned one) and the world after it.
\<close>

type_synonym ('t, 'w, 'a) computation = "'w \<Rightarrow> ('t + 'a) \<times> 'w"

type_synonym ('w, 'a) js = "(val, 'w, 'a) computation"

definition returns :: "'a \<Rightarrow> ('t, 'w, 'a) computation" where
  "returns x = (\<lambda>w. (Inr x, w))"

definition throws :: "'t \<Rightarrow> ('t, 'w, 'a) computation" where
  "throws t = (\<lambda>w. (Inl t, w))"

text \<open>Sequencing: a thrown value ends the computation, a returned one goes on.\<close>

definition andThen ::
    "('t, 'w, 'a) computation \<Rightarrow> ('a \<Rightarrow> ('t, 'w, 'b) computation) \<Rightarrow> ('t, 'w, 'b) computation" where
  "andThen m k = (\<lambda>w. case m w of (Inl t, w') \<Rightarrow> (Inl t, w') | (Inr x, w') \<Rightarrow> k x w')"

text \<open>The outcome of a method that touches nothing outside, as a computation.\<close>

definition lift :: "'t + 'a \<Rightarrow> ('t, 'w, 'a) computation" where
  "lift r = (\<lambda>w. (r, w))"

text \<open>A pure function of the host language: it returns, and leaves the world alone.\<close>

definition pure :: "('a \<Rightarrow> 'b) \<Rightarrow> 'a \<Rightarrow> ('t, 'w, 'b) computation" where
  "pure f = (\<lambda>x. returns (f x))"

section \<open>Construction and extraction\<close>

text \<open>\<open>Result.Ok(value?)\<close> and \<open>Result.Err(error?)\<close>; an argument left out is \<open>undefined\<close>.\<close>

definition Result_Ok :: "val \<Rightarrow> result" where
  "Result_Ok v = (if v \<noteq> Undefined then Ok v else Ok EMPTY)"

definition Result_Err :: "val \<Rightarrow> result" where
  "Result_Err e = (if e \<noteq> Undefined then Err e else Err EMPTY)"

fun take_res :: "result \<Rightarrow> val + val" where
  "take_res (Ok v) = Inr (get_value (Ok v))"
| "take_res (Err e) = Inl ERROR_take"

fun takeErr :: "result \<Rightarrow> val + val" where
  "takeErr (Ok v) = Inl ERROR_takeErr"
| "takeErr (Err e) = Inr (get_error (Err e))"

fun isOk :: "result \<Rightarrow> bool" where
  "isOk (Ok v) = True"
| "isOk (Err e) = False"

fun isErr :: "result \<Rightarrow> bool" where
  "isErr (Ok v) = False"
| "isErr (Err e) = True"

section \<open>The combinators\<close>

text \<open>
  Callbacks are computations of the host language. A predicate returns a boolean, a mapper
  any value, and the callbacks of \<open>chain\<close>, \<open>or\<close> and \<open>orIf\<close> a \<open>Result\<close>, as their
  signatures say. Each method of the two subclasses is one equation.
\<close>

fun onOk :: "(val \<Rightarrow> ('w, val) js) \<Rightarrow> result \<Rightarrow> ('w, result) js" where
  "onOk fn (Ok v) = andThen (fn (get_value (Ok v))) (\<lambda>_. returns (Ok v))"
| "onOk fn (Err e) = returns (Err e)"

fun onErr :: "(val \<Rightarrow> ('w, val) js) \<Rightarrow> result \<Rightarrow> ('w, result) js" where
  "onErr fn (Ok v) = returns (Ok v)"
| "onErr fn (Err e) = andThen (fn (get_error (Err e))) (\<lambda>_. returns (Err e))"

fun map_res :: "(val \<Rightarrow> ('w, val) js) \<Rightarrow> result \<Rightarrow> ('w, result) js" where
  "map_res mapper (Ok v) = andThen (mapper (get_value (Ok v))) (\<lambda>x. returns (Result_Ok x))"
| "map_res mapper (Err e) = returns (Err e)"

fun refine :: "(val \<Rightarrow> ('w, val) js) \<Rightarrow> result \<Rightarrow> ('w, result) js" where
  "refine mapper (Ok v) = returns (Ok v)"
| "refine mapper (Err e) = andThen (mapper (get_error (Err e))) (\<lambda>x. returns (Result_Err x))"

text \<open>\<open>toUnion\<close> and \<open>unfold\<close> of the base class. \<open>unfold\<close> reads \<open>self.value\<close> and tests it
  with \<open>instanceof Result\<close>.\<close>

definition toUnion :: "result \<Rightarrow> val + result" where
  "toUnion this =
     (if instanceof_Ok this \<or> instanceof_Err this then Inr this else Inl ERROR_toUnion)"

definition unfold :: "result \<Rightarrow> val + result" where
  "unfold this =
     (case toUnion this of
        Inl t \<Rightarrow> Inl t
      | Inr self \<Rightarrow>
          if isErr self then Inr this
          else if \<not> instanceof_Result (get_value self) then Inr this
          else (case get_value self of JResult inner \<Rightarrow> Inr inner | _ \<Rightarrow> Inr this))"

fun chain_res :: "(val \<Rightarrow> ('w, result) js) \<Rightarrow> result \<Rightarrow> ('w, result) js" where
  "chain_res chain (Ok v) =
     andThen (chain (get_value (Ok v))) (\<lambda>r. lift (unfold (Result_Ok (JResult r))))"
| "chain_res chain (Err e) = returns (Err e)"

text \<open>
  \<open>Result\<close> is an exported abstract class, so a receiver of the methods of the base class
  may also be an instance of a subclass other than \<open>Ok\<close> and \<open>Err\<close>, written outside these
  sources (it is named here by its class). \<open>toUnion\<close> is the method that tells: the two
  \<open>instanceof\<close> tests fail on such an instance and the method throws; its result type is
  the union \<open>Ok | Err\<close>. \<open>unfold\<close> calls it first. The functions \<open>toUnion\<close> and \<open>unfold\<close>
  above are these two methods on a receiver known to be an \<open>Ok\<close> or an \<open>Err\<close>, as the
  receiver \<open>Result.Ok(...)\<close> inside \<open>chain\<close> is. The abstract methods of such a subclass
  are its own and not part of the algebra; a payload that is a \<open>Result\<close> is an \<open>Ok\<close> or an
  \<open>Err\<close>.
\<close>

datatype any_result =
    OkOrErr result
  | Foreign string

fun Result_toUnion :: "any_result \<Rightarrow> val + result" where
  "Result_toUnion (OkOrErr r) =
     (if instanceof_Ok r \<or> instanceof_Err r then Inr r else Inl ERROR_toUnion)"
| "Result_toUnion (Foreign c) = Inl ERROR_toUnion"

definition Result_unfold :: "any_result \<Rightarrow> val + any_result" where
  "Result_unfold this =
     (case Result_toUnion this of
        Inl t \<Rightarrow> Inl t
      | Inr self \<Rightarrow>
          if isErr self then Inr this
          else if \<not> instanceof_Result (get_value self) then Inr this
          else (case get_value self of JResult inner \<Rightarrow> Inr (OkOrErr inner) | _ \<Rightarrow> Inr this))"

text \<open>\<open>check\<close> and \<open>assert\<close> of the base class; \<open>error\<close> left out is \<open>undefined\<close>.\<close>

definition check :: "(val \<Rightarrow> ('w, bool) js) \<Rightarrow> val \<Rightarrow> result \<Rightarrow> ('w, result) js" where
  "check predicate error this =
     (if isErr this then returns this
      else andThen (lift (take_res this)) (\<lambda>v.
           andThen (predicate v) (\<lambda>b.
             if b then returns this
             else returns (if error \<noteq> Undefined then Result_Err error
                           else Result_Err Undefined))))"

definition assert :: "(val \<Rightarrow> ('w, bool) js) \<Rightarrow> val \<Rightarrow> result \<Rightarrow> ('w, result) js" where
  "assert guard error this =
     (if isErr this then returns this
      else andThen (lift (take_res this)) (\<lambda>v.
           andThen (guard v) (\<lambda>b.
             if b then returns this
             else returns (if error \<noteq> Undefined then Result_Err error
                           else Result_Err Undefined))))"

text \<open>The alternative of \<open>or\<close> and \<open>orIf\<close> is a \<open>Result\<close> or a function of the error;
  \<open>typeof other === "function"\<close> tells them apart.\<close>

datatype 'w alternative =
    Literal result
  | Deferred "val \<Rightarrow> ('w, result) js"

text \<open>\<open>typeof other === "function" ? other(this.takeErr()) : other\<close>, the argument
  \<open>this.takeErr()\<close> being evaluated in the first branch only.\<close>

fun use_alternative :: "'w alternative \<Rightarrow> val + val \<Rightarrow> ('w, result) js" where
  "use_alternative (Deferred f) arg = andThen (lift arg) f"
| "use_alternative (Literal r) arg = returns r"

definition or_res :: "'w alternative \<Rightarrow> result \<Rightarrow> ('w, result) js" where
  "or_res other this =
     (if isOk this then returns this
      else use_alternative other (takeErr this))"

definition orIf :: "(val \<Rightarrow> ('w, bool) js) \<Rightarrow> 'w alternative \<Rightarrow> result \<Rightarrow> ('w, result) js" where
  "orIf predicate other this =
     (if isOk this then returns this
      else andThen (lift (takeErr this)) (\<lambda>e.
           andThen (predicate e) (\<lambda>b.
             if b then use_alternative other (takeErr this)
             else returns this)))"

definition toBase :: "result \<Rightarrow> result" where
  "toBase this = this"

text \<open>\<open>FromTryCatch(fn, mapper?)\<close>: the \<open>try\<close> block returns \<open>Result.Ok(fn())\<close>, the
  \<open>catch\<close> block maps the thrown value when a mapper is there.\<close>

definition FromTryCatch ::
    "('w, val) js \<Rightarrow> (val \<Rightarrow> ('w, val) js) option \<Rightarrow> ('w, result) js" where
  "FromTryCatch fn mapper =
     (\<lambda>w. case fn w of
        (Inr v, w') \<Rightarrow> (Inr (Result_Ok v), w')
      | (Inl e, w') \<Rightarrow>
          (case mapper of
             Some m \<Rightarrow> andThen (m e) (\<lambda>x. returns (Result_Err x)) w'
           | None \<Rightarrow> (Inr (Result_Err e), w')))"

text \<open>
  \<open>FromPromise(promise, mapper?)\<close>. The argument is a promise or a function returning one.
  A promise is modelled by what \<open>await\<close> makes of it: a computation that returns the value
  the promise is fulfilled with or throws the reason it is rejected with, whatever happened
  to the world in between. Calling the function may itself throw. The outcome of
  \<open>FromPromise\<close> is likewise that of the promise it returns: \<open>Inr\<close> the \<open>Result\<close> it is
  fulfilled with, \<open>Inl\<close> the reason it is rejected with.
\<close>

datatype 'w promise_or_function =
    APromise "('w, val) js"
  | AFunction "('w, ('w, val) js) js"

definition await :: "('w, val) js \<Rightarrow> ('w, val) js" where
  "await promise = promise"

definition FromPromise ::
    "'w promise_or_function \<Rightarrow> (val \<Rightarrow> ('w, val) js) option \<Rightarrow> ('w, result) js" where
  "FromPromise promise mapper =
     (\<lambda>w. case (case promise of
                  AFunction f \<Rightarrow> andThen f await
                | APromise p \<Rightarrow> await p) w of
        (Inr v, w') \<Rightarrow> (Inr (Result_Ok v), w')
      | (Inl e, w') \<Rightarrow>
          (case mapper of
             Some m \<Rightarrow> andThen (m e) (\<lambda>x. returns (Result_Err x)) w'
           | None \<Rightarrow> (Inr (Result_Err e), w')))"

section \<open>Instances in a store\<close>

text \<open>
  Whether a combinator hands back the very instance it was called on or a new one is not
  visible in the values above. This section models the same classes with object identity:
  a \<open>Result\<close> instance lives in a store, a reference to it is its position there, \<open>new\<close>
  appends an instance, and a payload that is itself a \<open>Result\<close> is a reference. No method
  assigns to the private fields \<open>_value\<close> and \<open>_error\<close>, so no operation below overwrites
  a position of the store. The world of a computation is here the store alone; callbacks
  return references where they return a \<open>Result\<close>. The store holds instances of \<open>Ok\<close> and
  \<open>Err\<close> only: the methods of another subclass are not in the sources.
\<close>

datatype rval =
    RUndefined
  | RSentinel
  | RBool bool
  | RNum int
  | RStr string
  | RError string
  | RInstance nat

datatype res_object =
    OkInstance rval
  | ErrInstance rval

text \<open>Modelled from the spec: the constant \<open>EMPTY\<close> again, as a value of the store model.\<close>

definition REMPTY :: rval where
  "REMPTY = RSentinel"

type_synonym store = "res_object list"

type_synonym 'a st = "(rval, store, 'a) computation"

definition new :: "res_object \<Rightarrow> nat st" where
  "new i = (\<lambda>s. (Inr (length s), s @ [i]))"

text \<open>Reading the instance behind \<open>this\<close>. A reference always comes from \<open>new\<close>, so it is in
  the store; the other branch only makes the function total.\<close>

definition load :: "nat \<Rightarrow> res_object st" where
  "load this = (\<lambda>s. if this < length s then (Inr (s ! this), s)
                     else (Inl (RError ''not an instance''), s))"

definition Result_Ok_ref :: "rval \<Rightarrow> nat st" where
  "Result_Ok_ref v = (if v \<noteq> RUndefined then new (OkInstance v) else new (OkInstance REMPTY))"

definition Result_Err_ref :: "rval \<Rightarrow> nat st" where
  "Result_Err_ref e = (if e \<noteq> RUndefined then new (ErrInstance e) else new (ErrInstance REMPTY))"

definition take_ref :: "nat \<Rightarrow> rval st" where
  "take_ref this = andThen (load this) (\<lambda>i.
     case i of
       OkInstance v \<Rightarrow> returns v
     | ErrInstance e \<Rightarrow> throws (RError ''Trying to take value from `Err` instance''))"

definition takeErr_ref :: "nat \<Rightarrow> rval st" where
  "takeErr_ref this = andThen (load this) (\<lambda>i.
     case i of
       OkInstance v \<Rightarrow> throws (RError ''Trying to take error from `Ok` instance'')
     | ErrInstance e \<Rightarrow> returns e)"

definition isOk_ref :: "nat \<Rightarrow> bool st" where
  "isOk_ref this = andThen (load this) (\<lambda>i.
     case i of OkInstance v \<Rightarrow> returns True | ErrInstance e \<Rightarrow> returns False)"

definition isErr_ref :: "nat \<Rightarrow> bool st" where
  "isErr_ref this = andThen (load this) (\<lambda>i.
     case i of OkInstance v \<Rightarrow> returns False | ErrInstance e \<Rightarrow> returns True)"

definition onOk_ref :: "(rval \<Rightarrow> rval st) \<Rightarrow> nat \<Rightarrow> nat st" where
  "onOk_ref fn this = andThen (load this) (\<lambda>i.
     case i of
       OkInstance v \<Rightarrow> andThen (fn v) (\<lambda>_. returns this)
     | ErrInstance e \<Rightarrow> returns this)"

definition onErr_ref :: "(rval \<Rightarrow> rval st) \<Rightarrow> nat \<Rightarrow> nat st" where
  "onErr_ref fn this = andThen (load this) (\<lambda>i.
     case i of
       OkInstance v \<Rightarrow> returns this
     | ErrInstance e \<Rightarrow> andThen (fn e) (\<lambda>_. returns this))"

definition map_ref :: "(rval \<Rightarrow> rval st) \<Rightarrow> nat \<Rightarrow> nat st" where
  "map_ref mapper this = andThen (load this) (\<lambda>i.
     case i of
       OkInstance v \<Rightarrow> andThen (mapper v) Result_Ok_ref
     | ErrInstance e \<Rightarrow> returns this)"

definition refine_ref :: "(rval \<Rightarrow> rval st) \<Rightarrow> nat \<Rightarrow> nat st" where
  "refine_ref mapper this = andThen (load this) (\<lambda>i.
     case i of
       OkInstance v \<Rightarrow> returns this
     | ErrInstance e \<Rightarrow> andThen (mapper e) Result_Err_ref)"

fun instanceof_Ok_ref :: "res_object \<Rightarrow> bool" where
  "instanceof_Ok_ref (OkInstance v) = True"
| "instanceof_Ok_ref (ErrInstance e) = False"

fun instanceof_Err_ref :: "res_object \<Rightarrow> bool" where
  "instanceof_Err_ref (OkInstance v) = False"
| "instanceof_Err_ref (ErrInstance e) = True"

definition toUnion_ref :: "nat \<Rightarrow> nat st" where
  "toUnion_ref this = andThen (load this) (\<lambda>i.
     if instanceof_Ok_ref i \<or> instanceof_Err_ref i then returns this
     else throws (RError ''trying to convert to union a object thats not Ok or Err instance''))"

definition unfold_ref :: "nat \<Rightarrow> nat st" where
  "unfold_ref this = andThen (toUnion_ref this) (\<lambda>self. andThen (load self) (\<lambda>i.
     case i of
       ErrInstance e \<Rightarrow> returns this
     | OkInstance v \<Rightarrow> (case v of RInstance inner \<Rightarrow> returns inner | _ \<Rightarrow> returns this)))"

definition chain_ref :: "(rval \<Rightarrow> nat st) \<Rightarrow> nat \<Rightarrow> nat st" where
  "chain_ref chain this = andThen (load this) (\<lambda>i.
     case i of
       OkInstance v \<Rightarrow>
         andThen (chain v) (\<lambda>r. andThen (Result_Ok_ref (RInstance r)) unfold_ref)
     | ErrInstance e \<Rightarrow> returns this)"

definition check_ref :: "(rval \<Rightarrow> bool st) \<Rightarrow> rval \<Rightarrow> nat \<Rightarrow> nat st" where
  "check_ref predicate error this =
     andThen (isErr_ref this) (\<lambda>failed.
       if failed then returns this
       else andThen (take_ref this) (\<lambda>v.
            andThen (predicate v) (\<lambda>b.
              if b then returns this
              else if error \<noteq> RUndefined then Result_Err_ref error
              else Result_Err_ref RUndefined)))"

definition assert_ref :: "(rval \<Rightarrow> bool st) \<Rightarrow> rval \<Rightarrow> nat \<Rightarrow> nat st" where
  "assert_ref guard error this =
     andThen (isErr_ref this) (\<lambda>failed.
       if failed then returns this
       else andThen (take_ref this) (\<lambda>v.
            andThen (guard v) (\<lambda>b.
              if b then returns this
              else if error \<noteq> RUndefined then Result_Err_ref error
              else Result_Err_ref RUndefined)))"

datatype alternative_ref =
    LiteralRef nat
  | DeferredRef "rval \<Rightarrow> nat st"

fun use_alternative_ref :: "alternative_ref \<Rightarrow> rval st \<Rightarrow> nat st" where
  "use_alternative_ref (DeferredRef f) arg = andThen arg f"
| "use_alternative_ref (LiteralRef r) arg = returns r"

definition or_ref :: "alternative_ref \<Rightarrow> nat \<Rightarrow> nat st" where
  "or_ref other this =
     andThen (isOk_ref this) (\<lambda>ok.
       if ok then returns this
       else use_alternative_ref other (takeErr_ref this))"

definition orIf_ref :: "(rval \<Rightarrow> bool st) \<Rightarrow> alternative_ref \<Rightarrow> nat \<Rightarrow> nat st" where
  "orIf_ref predicate other this =
     andThen (isOk_ref this) (\<lambda>ok.
       if ok then returns this
       else andThen (takeErr_ref this) (\<lambda>e.
            andThen (predicate e) (\<lambda>b.
              if b then use_alternative_ref other (takeErr_ref this)
              else returns this)))"

text \<open>The store \<open>s'\<close> extends \<open>s\<close> when every instance of \<open>s\<close> is in \<open>s'\<close> at the same
  place, with the same variant and payload. A computation keeps the store when the store
  after it extends the store before it.\<close>

definition extends :: "store \<Rightarrow> store \<Rightarrow> bool" where
  "extends s s' = (length s \<le> length s' \<and> (\<forall>i < length s. s' ! i = s ! i))"

definition keeps_store :: "'a st \<Rightarrow> bool" where
  "keeps_store m = (\<forall>s. extends s (snd (m s)))"

section \<open>Callbacks used in the examples\<close>

definition always_undefined :: "val \<Rightarrow> val" where
  "always_undefined x = Undefined"

definition is_undefined :: "val \<Rightarrow> val" where
  "is_undefined x = JBool (x = Undefined)"

definition double :: "val \<Rightarrow> val" where
  "double x = (case x of JNum n \<Rightarrow> JNum (2 * n) | _ \<Rightarrow> x)"

definition successor :: "val \<Rightarrow> val" where
  "successor x = (case x of JNum n \<Rightarrow> JNum (n + 1) | _ \<Rightarrow> x)"

definition reject_undefined :: "val \<Rightarrow> (unit, result) js" where
  "reject_undefined x = returns (if x = Undefined then Err (JStr ''missing'') else Ok x)"

definition boom :: "val \<Rightarrow> ('w, 'a) js" where
  "boom x = throws (JStr ''boom'')"

definition is_positive :: "val \<Rightarrow> (unit, bool) js" where
  "is_positive x = returns (case x of JNum n \<Rightarrow> 0 < n | _ \<Rightarrow> False)"

definition is_missing :: "val \<Rightarrow> (unit, bool) js" where
  "is_missing x = returns (x = JStr ''missing'')"

definition append_log :: "val \<Rightarrow> (val list, val) js" where
  "append_log x = (\<lambda>log. (Inr Undefined, log @ [x]))"

definition exclaim :: "val \<Rightarrow> (unit, val) js" where
  "exclaim x = returns (case x of JStr s \<Rightarrow> JStr (s @ ''!'') | _ \<Rightarrow> x)"

definition retry :: "val \<Rightarrow> (unit, result) js" where
  "retry e = returns (Ok e)"

definition double_ref :: "rval \<Rightarrow> rval st" where
  "double_ref x = returns (case x of RNum n \<Rightarrow> RNum (2 * n) | _ \<Rightarrow> x)"

definition positive_ref :: "rval \<Rightarrow> bool st" where
  "positive_ref x = returns (case x of RNum n \<Rightarrow> 0 < n | _ \<Rightarrow> False)"

definition not_positive_ref :: "rval \<Rightarrow> bool st" where
  "not_positive_ref x = returns (case x of RNum n \<Rightarrow> \<not> 0 < n | _ \<Rightarrow> True)"

text \<open>A store with \<open>Ok(5)\<close> at reference 0, \<open>Err("e")\<close> at reference 1 and, at reference 2,
  an \<open>Ok\<close> whose payload is the instance at reference 0.\<close>

definition sample_store :: store where
  "sample_store = [OkInstance (RNum 5), ErrInstance (RStr ''e''), OkInstance (RInstance 0)]"

section \<open>Running computations\<close>

lemma run_returns [simp]: "returns x w = (Inr x, w)"
  by (simp add: returns_def)

lemma run_throws [simp]: "throws t w = (Inl t, w)"
  by (simp add: throws_def)

lemma run_lift [simp]: "lift r w = (r, w)"
  by (simp add: lift_def)

lemma run_pure [simp]: "pure f x w = (Inr (f x), w)"
  by (simp add: pure_def)

lemma andThen_returns [simp]: "andThen (returns x) k = k x"
  by (rule ext) (simp add: andThen_def)

lemma andThen_throws [simp]: "andThen (throws t) k = throws t"
  by (rule ext) (simp add: andThen_def)

lemma andThen_lift_Inr [simp]: "andThen (lift (Inr x)) k = k x"
  by (rule ext) (simp add: andThen_def)

lemma andThen_lift_Inl [simp]: "andThen (lift (Inl t)) k = throws t"
  by (rule ext) (simp add: andThen_def)

lemma thrownI: "f x w = (Inl t, w') \<Longrightarrow> \<exists>x w'. fst (f x w') = Inl t"
  by (metis fst_conv)

section \<open>Construction and extraction: theorems\<close>

lemma EMPTY_distinct [simp]:
  "EMPTY \<noteq> Undefined" "Undefined \<noteq> EMPTY" "\<not> instanceof_Result EMPTY"
  by (simp_all add: EMPTY_def)

lemma isOk_Result_Ok [simp]: "isOk (Result_Ok v)" "\<not> isErr (Result_Ok v)"
  by (simp_all add: Result_Ok_def)

lemma isErr_Result_Err [simp]: "isErr (Result_Err e)" "\<not> isOk (Result_Err e)"
  by (simp_all add: Result_Err_def)

text \<open>
  C3, as stated: for every value \<open>v\<close>, \<open>Ok(v).take()\<close> returns \<open>v\<close>. This fails at
  \<open>v = undefined\<close>: \<open>Result.Ok\<close> tests its argument against \<open>undefined\<close> and stores the
  empty sentinel instead, so \<open>take()\<close> returns the sentinel.
\<close>

theorem Ok_undefined_take_counterexample:
  "take_res (Result_Ok Undefined) \<noteq> Inr Undefined"
  by (simp add: Result_Ok_def)

text \<open>
  C3, amended: for every value \<open>v\<close> other than \<open>undefined\<close>, \<open>Ok(v)\<close> is the success variant
  holding exactly \<open>v\<close> and \<open>Ok(v).take()\<close> returns \<open>v\<close>; for every error value \<open>e\<close> other than
  \<open>undefined\<close>, \<open>Err(e)\<close> is the failure variant holding exactly \<open>e\<close> and \<open>Err(e).takeErr()\<close>
  returns \<open>e\<close>. \<open>Ok(undefined)\<close> and \<open>Err(undefined)\<close> are \<open>Ok()\<close> and \<open>Err()\<close>: they hold the
  empty sentinel.
\<close>

theorem constructors_hold_payload:
  "(v \<noteq> Undefined \<longrightarrow> Result_Ok v = Ok v \<and> take_res (Result_Ok v) = Inr v) \<and>
   (e \<noteq> Undefined \<longrightarrow> Result_Err e = Err e \<and> takeErr (Result_Err e) = Inr e) \<and>
   Result_Ok Undefined = Ok EMPTY \<and> take_res (Result_Ok Undefined) = Inr EMPTY \<and>
   Result_Err Undefined = Err EMPTY \<and> takeErr (Result_Err Undefined) = Inr EMPTY"
  by (simp add: Result_Ok_def Result_Err_def)

theorem constructors_hold_payload_witness:
  "JNum 5 \<noteq> Undefined \<and> Result_Ok (JNum 5) = Ok (JNum 5) \<and>
   take_res (Result_Ok (JNum 5)) = Inr (JNum 5) \<and>
   JStr ''e'' \<noteq> Undefined \<and> Result_Err (JStr ''e'') = Err (JStr ''e'') \<and>
   takeErr (Result_Err (JStr ''e'')) = Inr (JStr ''e'')"
  using constructors_hold_payload [of "JNum 5" "JStr ''e''"] by simp

section \<open>Where a thrown value comes from\<close>

lemma take_res_Ok: "isOk r \<Longrightarrow> take_res r = Inr (get_value r)"
  by (cases r) simp_all

lemma takeErr_Err: "isErr r \<Longrightarrow> takeErr r = Inr (get_error r)"
  by (cases r) simp_all

lemma toUnion_returns: "toUnion r = Inr r"
  by (cases r) (simp_all add: toUnion_def)

lemma onOk_thrown:
  "fst (onOk f r w) = Inl t \<Longrightarrow> \<exists>x w'. fst (f x w') = Inl t"
  by (cases r) (auto simp: andThen_def split: prod.splits sum.splits intro: thrownI)

lemma onErr_thrown:
  "fst (onErr f r w) = Inl t \<Longrightarrow> \<exists>x w'. fst (f x w') = Inl t"
  by (cases r) (auto simp: andThen_def split: prod.splits sum.splits intro: thrownI)

lemma map_res_thrown:
  "fst (map_res f r w) = Inl t \<Longrightarrow> \<exists>x w'. fst (f x w') = Inl t"
  by (cases r) (auto simp: andThen_def split: prod.splits sum.splits intro: thrownI)

lemma refine_thrown:
  "fst (refine f r w) = Inl t \<Longrightarrow> \<exists>x w'. fst (f x w') = Inl t"
  by (cases r) (auto simp: andThen_def split: prod.splits sum.splits intro: thrownI)

lemma unfold_Result_Ok_JResult: "unfold (Result_Ok (JResult r)) = Inr r"
  by (simp add: unfold_def toUnion_returns Result_Ok_def)

lemma chain_res_Ok:
  "chain_res f (Ok v) w = f v w"
  by (simp add: andThen_def unfold_Result_Ok_JResult split: prod.splits sum.splits)

lemma chain_res_thrown:
  "fst (chain_res f r w) = Inl t \<Longrightarrow> \<exists>x w'. fst (f x w') = Inl t"
  by (cases r) (auto simp: chain_res_Ok simp del: chain_res.simps(1))

lemma check_thrown:
  "fst (check p err r w) = Inl t \<Longrightarrow> \<exists>x w'. fst (p x w') = Inl t"
  by (cases r) (auto simp: check_def andThen_def split: prod.splits sum.splits if_splits intro: thrownI)

lemma assert_thrown:
  "fst (assert p err r w) = Inl t \<Longrightarrow> \<exists>x w'. fst (p x w') = Inl t"
  by (cases r) (auto simp: assert_def andThen_def split: prod.splits sum.splits if_splits intro: thrownI)

lemma or_res_Literal_returns: "\<not> isl (fst (or_res (Literal a) r w))"
  by (cases r) (simp_all add: or_res_def)

lemma or_res_Deferred_thrown:
  "fst (or_res (Deferred f) r w) = Inl t \<Longrightarrow> \<exists>x w'. fst (f x w') = Inl t"
  by (cases r) (auto simp: or_res_def)

lemma orIf_Literal_thrown:
  "fst (orIf p (Literal a) r w) = Inl t \<Longrightarrow> \<exists>x w'. fst (p x w') = Inl t"
  by (cases r) (auto simp: orIf_def andThen_def split: prod.splits sum.splits if_splits intro: thrownI)

lemma orIf_Deferred_thrown:
  "fst (orIf p (Deferred f) r w) = Inl t \<Longrightarrow>
     (\<exists>x w'. fst (p x w') = Inl t) \<or> (\<exists>x w'. fst (f x w') = Inl t)"
  by (cases r) (auto simp: orIf_def andThen_def split: prod.splits sum.splits if_splits intro: thrownI)

lemma FromTryCatch_None_returns: "\<not> isl (fst (FromTryCatch fn None w))"
  by (simp add: FromTryCatch_def split: prod.splits sum.splits)

lemma FromTryCatch_Some_thrown:
  "fst (FromTryCatch fn (Some m) w) = Inl t \<Longrightarrow> \<exists>x w'. fst (m x w') = Inl t"
  by (auto simp: FromTryCatch_def andThen_def split: prod.splits sum.splits intro: thrownI)

lemma Result_toUnion_OkOrErr: "Result_toUnion (OkOrErr r) = Inr r"
  by (cases r) simp_all

lemma Result_unfold_OkOrErr: "\<not> isl (Result_unfold (OkOrErr r))"
  by (cases r) (simp_all add: Result_unfold_def split: val.splits)

lemma Result_unfold_Foreign: "Result_unfold (Foreign c) = Inl ERROR_toUnion"
  by (simp add: Result_unfold_def)

lemma FromPromise_None_returns: "\<not> isl (fst (FromPromise promise None w))"
  by (simp add: FromPromise_def split: prod.splits sum.splits)

lemma FromPromise_Some_thrown:
  "fst (FromPromise promise (Some m) w) = Inl t \<Longrightarrow> \<exists>x w'. fst (m x w') = Inl t"
  by (auto simp: FromPromise_def andThen_def simp del: split_paired_Ex
        split: prod.splits sum.splits intro: thrownI)

text \<open>
  C4, as stated: \<open>Err(e).take()\<close> and \<open>Ok(v).takeErr()\<close> are the only operations of the
  algebra that raise a native failure. This fails for \<open>toUnion()\<close>: called on an instance
  of \<open>Result\<close> that is neither an \<open>Ok\<close> nor an \<open>Err\<close> (here one of a subclass \<open>Pending\<close>), it
  throws a native \<open>Error\<close>.
\<close>

theorem toUnion_foreign_receiver_counterexample:
  "Result_toUnion (Foreign ''Pending'')
     = Inl (JError ''trying to convert to union a object thats not Ok or Err instance'')"
  by (simp add: ERROR_toUnion_def)

text \<open>
  C4, amended: for every error value \<open>e\<close>, \<open>Err(e).take()\<close> raises the variant-misuse error,
  and for every value \<open>v\<close>, \<open>Ok(v).takeErr()\<close> raises the variant-misuse error; besides
  these, \<open>toUnion()\<close>, and \<open>unfold()\<close> which calls it, raise a native \<open>Error\<close> on an instance
  of \<open>Result\<close> that is neither an \<open>Ok\<close> nor an \<open>Err\<close>. These are the only operations of the
  algebra that raise a native failure of their own: \<open>take\<close> on a success, \<open>takeErr\<close> on a
  failure, and \<open>toUnion\<close> and \<open>unfold\<close> on an \<open>Ok\<close> or an \<open>Err\<close> return; \<open>FromTryCatch\<close> and
  \<open>FromPromise\<close> without a mapper return (are fulfilled with) a \<open>Result\<close> whatever their
  argument does; and a value thrown out of any combinator called on an \<open>Ok\<close> or an \<open>Err\<close>,
  or out of \<open>FromTryCatch\<close> or \<open>FromPromise\<close> with a mapper, was thrown by one of the
  callbacks handed to it.
\<close>

theorem native_failures_of_the_algebra:
  "take_res (Result_Err e) = Inl ERROR_take \<and>
   takeErr (Result_Ok v) = Inl ERROR_takeErr \<and>
   Result_toUnion (Foreign c) = Inl ERROR_toUnion \<and>
   Result_unfold (Foreign c) = Inl ERROR_toUnion \<and>
   (isOk r \<longrightarrow> take_res r = Inr (get_value r)) \<and>
   (isErr r \<longrightarrow> takeErr r = Inr (get_error r)) \<and>
   Result_toUnion (OkOrErr r) = Inr r \<and>
   \<not> isl (Result_unfold (OkOrErr r)) \<and>
   (fst (onOk f r w) = Inl t \<longrightarrow> (\<exists>x w'. fst (f x w') = Inl t)) \<and>
   (fst (onErr f r w) = Inl t \<longrightarrow> (\<exists>x w'. fst (f x w') = Inl t)) \<and>
   (fst (map_res f r w) = Inl t \<longrightarrow> (\<exists>x w'. fst (f x w') = Inl t)) \<and>
   (fst (refine f r w) = Inl t \<longrightarrow> (\<exists>x w'. fst (f x w') = Inl t)) \<and>
   (fst (chain_res g r w) = Inl t \<longrightarrow> (\<exists>x w'. fst (g x w') = Inl t)) \<and>
   (fst (check p err r w) = Inl t \<longrightarrow> (\<exists>x w'. fst (p x w') = Inl t)) \<and>
   (fst (assert p err r w) = Inl t \<longrightarrow> (\<exists>x w'. fst (p x w') = Inl t)) \<and>
   \<not> isl (fst (or_res (Literal a) r w)) \<and>
   (fst (or_res (Deferred g) r w) = Inl t \<longrightarrow> (\<exists>x w'. fst (g x w') = Inl t)) \<and>
   (fst (orIf p (Literal a) r w) = Inl t \<longrightarrow> (\<exists>x w'. fst (p x w') = Inl t)) \<and>
   (fst (orIf p (Deferred g) r w) = Inl t \<longrightarrow>
      (\<exists>x w'. fst (p x w') = Inl t) \<or> (\<exists>x w'. fst (g x w') = Inl t)) \<and>
   \<not> isl (fst (FromTryCatch fn None w)) \<and>
   (fst (FromTryCatch fn (Some f) w) = Inl t \<longrightarrow> (\<exists>x w'. fst (f x w') = Inl t)) \<and>
   \<not> isl (fst (FromPromise promise None w)) \<and>
   (fst (FromPromise promise (Some f) w) = Inl t \<longrightarrow> (\<exists>x w'. fst (f x w') = Inl t))"
proof -
  have raised: "take_res (Result_Err e) = Inl ERROR_take"
    "takeErr (Result_Ok v) = Inl ERROR_takeErr"
    "Result_toUnion (Foreign c) = Inl ERROR_toUnion"
    by (simp_all add: Result_Err_def Result_Ok_def)
  show ?thesis
    using raised Result_unfold_Foreign [of c] take_res_Ok [of r] takeErr_Err [of r]
      Result_toUnion_OkOrErr [of r] Result_unfold_OkOrErr [of r]
      onOk_thrown [of f r w t] onErr_thrown [of f r w t]
      map_res_thrown [of f r w t] refine_thrown [of f r w t] chain_res_thrown [of g r w t]
      check_thrown [of p err r w t] assert_thrown [of p err r w t]
      or_res_Literal_returns [of a r w] or_res_Deferred_thrown [of g r w t]
      orIf_Literal_thrown [of p a r w t] orIf_Deferred_thrown [of p g r w t]
      FromTryCatch_None_returns [of fn w] FromTryCatch_Some_thrown [of fn f w t]
      FromPromise_None_returns [of promise w] FromPromise_Some_thrown [of promise f w t]
    by blast
qed

theorem native_failures_of_the_algebra_witness:
  "isOk (Ok (JNum 1)) \<and> take_res (Ok (JNum 1)) = Inr (JNum 1) \<and>
   isErr (Err (JStr ''e'')) \<and> takeErr (Err (JStr ''e'')) = Inr (JStr ''e'') \<and>
   take_res (Result_Err (JStr ''e'')) = Inl ERROR_take \<and>
   takeErr (Result_Ok (JNum 1)) = Inl ERROR_takeErr \<and>
   Result_toUnion (Foreign ''Pending'') = Inl ERROR_toUnion \<and>
   Result_unfold (Foreign ''Pending'') = Inl ERROR_toUnion \<and>
   Result_toUnion (OkOrErr (Ok (JNum 1))) = Inr (Ok (JNum 1)) \<and>
   fst (onOk boom (Ok (JNum 1)) ()) = Inl (JStr ''boom'') \<and>
   fst (onErr boom (Err (JStr ''e'')) ()) = Inl (JStr ''boom'') \<and>
   fst (map_res boom (Ok (JNum 1)) ()) = Inl (JStr ''boom'') \<and>
   fst (refine boom (Err (JStr ''e'')) ()) = Inl (JStr ''boom'') \<and>
   fst (chain_res boom (Ok (JNum 1)) ()) = Inl (JStr ''boom'') \<and>
   fst (check boom Undefined (Ok (JNum 1)) ()) = Inl (JStr ''boom'') \<and>
   fst (assert boom Undefined (Ok (JNum 1)) ()) = Inl (JStr ''boom'') \<and>
   fst (or_res (Deferred boom) (Err (JStr ''e'')) ()) = Inl (JStr ''boom'') \<and>
   fst (orIf boom (Literal (Ok EMPTY)) (Err (JStr ''e'')) ()) = Inl (JStr ''boom'') \<and>
   fst (orIf boom (Deferred boom) (Err (JStr ''e'')) ()) = Inl (JStr ''boom'') \<and>
   fst (FromTryCatch (throws (JStr ''bang'')) (Some boom) ()) = Inl (JStr ''boom'') \<and>
   \<not> isl (fst (FromTryCatch (throws (JStr ''bang'')) None ())) \<and>
   fst (FromPromise (APromise (throws (JStr ''bang''))) (Some boom) ()) = Inl (JStr ''boom'') \<and>
   \<not> isl (fst (FromPromise (APromise (throws (JStr ''bang''))) None ())) \<and>
   (\<exists>x w'. fst ((boom :: val \<Rightarrow> (unit, val) js) x w') = Inl (JStr ''boom'')) \<and>
   (\<exists>x w'. fst ((boom :: val \<Rightarrow> (unit, result) js) x w') = Inl (JStr ''boom'')) \<and>
   (\<exists>x w'. fst ((boom :: val \<Rightarrow> (unit, bool) js) x w') = Inl (JStr ''boom''))"
  using native_failures_of_the_algebra
          [of "JStr ''e''" "JNum 1" "''Pending''" "Ok (JNum 1)" boom "()" "JStr ''boom''" boom
              boom Undefined "Ok EMPTY" "throws (JStr ''bang'')"
              "APromise (throws (JStr ''bang''))"]
        native_failures_of_the_algebra
          [of "JStr ''e''" "JNum 1" "''Pending''" "Err (JStr ''e'')" boom "()" "JStr ''boom''"
              boom boom Undefined "Ok EMPTY" "throws (JStr ''bang'')"
              "APromise (throws (JStr ''bang''))"]
  by (simp add: boom_def check_def assert_def or_res_def orIf_def FromTryCatch_def
        FromPromise_def await_def andThen_def)

section \<open>The conditional combinators\<close>

text \<open>
  C5: for every \<open>Ok(v)\<close> and predicate \<open>p\<close>, \<open>check(p, error?)\<close> returns the receiver
  unchanged when \<open>p(v)\<close> is true, and otherwise returns a failure holding \<open>error\<close> if
  provided, else the empty sentinel; for every \<open>Err\<close>, \<open>check\<close> returns the receiver
  unchanged and never evaluates the predicate: whatever the predicate \<open>q\<close> would do, throw or
  change the world, the call returns the receiver and the world is as before.
\<close>

theorem check_spec:
  "(p v w = (Inr True, w') \<longrightarrow> check p err (Ok v) w = (Inr (Ok v), w')) \<and>
   (p v w = (Inr False, w') \<and> err \<noteq> Undefined \<longrightarrow>
      check p err (Ok v) w = (Inr (Err err), w')) \<and>
   (p v w = (Inr False, w') \<longrightarrow> check p Undefined (Ok v) w = (Inr (Err EMPTY), w')) \<and>
   check q err (Err e) w = (Inr (Err e), w)"
  by (simp add: check_def andThen_def Result_Err_def)

theorem check_spec_witness:
  "is_positive (JNum 5) () = (Inr True, ()) \<and>
   check is_positive (JStr ''low'') (Ok (JNum 5)) () = (Inr (Ok (JNum 5)), ()) \<and>
   is_positive (JNum 0) () = (Inr False, ()) \<and> JStr ''low'' \<noteq> Undefined \<and>
   check is_positive (JStr ''low'') (Ok (JNum 0)) () = (Inr (Err (JStr ''low'')), ()) \<and>
   check is_positive Undefined (Ok (JNum 0)) () = (Inr (Err EMPTY), ())"
  using check_spec [of is_positive "JNum 5" "()" "()" "JStr ''low''"]
        check_spec [of is_positive "JNum 0" "()" "()" "JStr ''low''"]
  by (simp add: is_positive_def)

text \<open>
  C7: for every \<open>Result\<close> \<open>r\<close>, \<open>r.or(alt)\<close> returns \<open>r\<close> itself when \<open>r\<close> is a success, and
  when \<open>r\<close> is a failure with payload \<open>e\<close> it returns \<open>alt\<close> (or \<open>alt(e)\<close> when \<open>alt\<close> is a
  function); \<open>r.orIf(p, alt)\<close> behaves the same except the alternative is used only when
  \<open>p(e)\<close> holds, otherwise \<open>r\<close> is returned unchanged even though it is a failure.
\<close>

theorem or_orIf_spec:
  "or_res other (Ok v) w = (Inr (Ok v), w) \<and>
   or_res (Literal alt) (Err e) w = (Inr alt, w) \<and>
   or_res (Deferred f) (Err e) w = f e w \<and>
   orIf p other (Ok v) w = (Inr (Ok v), w) \<and>
   (p e w = (Inr True, w') \<longrightarrow>
      orIf p (Literal alt) (Err e) w = (Inr alt, w') \<and>
      orIf p (Deferred f) (Err e) w = f e w') \<and>
   (p e w = (Inr False, w') \<longrightarrow> orIf p other (Err e) w = (Inr (Err e), w'))"
  by (simp add: or_res_def orIf_def andThen_def)

theorem or_orIf_spec_witness:
  "is_missing (JStr ''missing'') () = (Inr True, ()) \<and>
   orIf is_missing (Literal (Ok (JNum 0))) (Err (JStr ''missing'')) () = (Inr (Ok (JNum 0)), ()) \<and>
   orIf is_missing (Deferred retry) (Err (JStr ''missing'')) ()
     = (Inr (Ok (JStr ''missing'')), ()) \<and>
   is_missing (JStr ''denied'') () = (Inr False, ()) \<and>
   orIf is_missing (Deferred retry) (Err (JStr ''denied'')) ()
     = (Inr (Err (JStr ''denied'')), ())"
  using or_orIf_spec [of "Deferred retry" EMPTY "()" "Ok (JNum 0)" "JStr ''missing''" retry
                         is_missing "()"]
        or_orIf_spec [of "Deferred retry" EMPTY "()" "Ok (JNum 0)" "JStr ''denied''" retry
                         is_missing "()"]
  by (simp add: is_missing_def retry_def)

section \<open>Flattening\<close>

text \<open>
  C8: \<open>unfold()\<close> flattens exactly one level of nesting: on a success whose payload is itself
  a \<open>Result\<close> it returns that inner \<open>Result\<close> (so \<open>Ok(Ok(5)).unfold()\<close> yields \<open>Ok(5)\<close>, and a
  success nested twice keeps one level), and on any failure or any success whose payload is
  not a \<open>Result\<close> it returns the receiver unchanged.
\<close>

theorem unfold_spec:
  "unfold (Ok (JResult inner)) = Inr inner \<and>
   unfold (Ok (JResult (Ok (JResult inner)))) = Inr (Ok (JResult inner)) \<and>
   unfold (Err e) = Inr (Err e) \<and>
   (\<not> instanceof_Result v \<longrightarrow> unfold (Ok v) = Inr (Ok v)) \<and>
   unfold (Result_Ok (JResult (Result_Ok (JNum 5)))) = Inr (Ok (JNum 5)) \<and>
   unfold (Result_Ok (JNum 5)) = Inr (Ok (JNum 5))"
  by (simp add: unfold_def toUnion_def Result_Ok_def)

theorem unfold_spec_witness:
  "\<not> instanceof_Result (JStr ''plain'') \<and>
   unfold (Ok (JStr ''plain'')) = Inr (Ok (JStr ''plain'')) \<and>
   unfold (Err (JResult (Ok (JNum 5)))) = Inr (Err (JResult (Ok (JNum 5))))"
  using unfold_spec [of "Ok (JNum 5)" "JResult (Ok (JNum 5))" "JStr ''plain''"] by simp

section \<open>The side-effect combinators\<close>

text \<open>
  C9, as stated: \<open>onOk(effect)\<close> and \<open>onErr(effect)\<close> always return the original \<open>Result\<close>,
  regardless of the effect's outcome. This fails when the outcome of the effect is a thrown
  value: the methods call the effect outside any \<open>try\<close>, so the call throws and returns
  nothing.
\<close>

theorem onOk_throwing_effect_counterexample:
  "fst (onOk boom (Ok (JNum 1)) ()) \<noteq> Inr (Ok (JNum 1))"
  by (simp add: boom_def)

text \<open>
  C9, amended: for every \<open>Result\<close> and every effect function, \<open>onOk(effect)\<close> and
  \<open>onErr(effect)\<close> invoke the effect with the payload exactly when the matching variant is
  active (the world after the call is the world after that one invocation; on the other
  variant it is the world before), and return the original \<open>Result\<close> unchanged regardless
  of which variant is active and of the value the effect returns; when the effect throws,
  the call throws the same value.
\<close>

theorem onOk_onErr_spec:
  "(eff v w = (Inr x, w') \<longrightarrow> onOk eff (Ok v) w = (Inr (Ok v), w')) \<and>
   (eff v w = (Inl t, w') \<longrightarrow> onOk eff (Ok v) w = (Inl t, w')) \<and>
   onOk eff (Err e) w = (Inr (Err e), w) \<and>
   (eff e w = (Inr x, w') \<longrightarrow> onErr eff (Err e) w = (Inr (Err e), w')) \<and>
   (eff e w = (Inl t, w') \<longrightarrow> onErr eff (Err e) w = (Inl t, w')) \<and>
   onErr eff (Ok v) w = (Inr (Ok v), w)"
  by (simp add: andThen_def)

theorem onOk_onErr_spec_witness:
  "append_log (JNum 1) [] = (Inr Undefined, [JNum 1]) \<and>
   onOk append_log (Ok (JNum 1)) [] = (Inr (Ok (JNum 1)), [JNum 1]) \<and>
   onErr append_log (Err (JNum 1)) [] = (Inr (Err (JNum 1)), [JNum 1]) \<and>
   onOk append_log (Err (JNum 1)) [] = (Inr (Err (JNum 1)), []) \<and>
   onErr append_log (Ok (JNum 1)) [] = (Inr (Ok (JNum 1)), []) \<and>
   boom (JNum 1) () = (Inl (JStr ''boom''), ()) \<and>
   onOk boom (Ok (JNum 1)) () = (Inl (JStr ''boom''), ()) \<and>
   onErr boom (Err (JNum 1)) () = (Inl (JStr ''boom''), ())"
  using onOk_onErr_spec [of append_log "JNum 1" "[]" Undefined "[JNum 1]" "JStr ''boom''" "JNum 1"]
        onOk_onErr_spec [of boom "JNum 1" "()" Undefined "()" "JStr ''boom''" "JNum 1"]
  by (simp add: append_log_def boom_def)

section \<open>Capturing a thrown value\<close>

text \<open>
  C6, as stated: when \<open>fn\<close> throws any value \<open>t\<close>, \<open>FromTryCatch(fn)\<close> returns a failure
  holding \<open>t\<close>. This fails at \<open>t = undefined\<close> (\<open>throw undefined\<close> is a legal statement):
  the failure is built with \<open>Result.Err\<close>, which stores the empty sentinel for \<open>undefined\<close>.
\<close>

theorem FromTryCatch_throw_undefined_counterexample:
  "fst (FromTryCatch (throws Undefined) None ()) \<noteq> Inr (Err Undefined)"
  by (simp add: FromTryCatch_def Result_Err_def)

text \<open>
  C6, amended: for every function \<open>fn\<close>, \<open>FromTryCatch(fn, mapper?)\<close> executes \<open>fn\<close> and
  wraps its return value in a success \<open>Result\<close>; if \<open>fn\<close> throws any value \<open>t\<close>, the call
  instead returns a failure \<open>Result\<close> holding \<open>t\<close>, or \<open>mapper(t)\<close> when a mapper is supplied
  and returns; in each of the three places a payload that is \<open>undefined\<close> is replaced by
  the empty sentinel. \<open>FromTryCatch(() => 42)\<close> yields \<open>Ok(42)\<close> and
  \<open>FromTryCatch(() => { throw "boom" })\<close> yields \<open>Err("boom")\<close>.
\<close>

theorem FromTryCatch_spec:
  "(fn w = (Inr v, w') \<longrightarrow>
      FromTryCatch fn mapper w = (Inr (if v = Undefined then Ok EMPTY else Ok v), w')) \<and>
   (fn w = (Inl t, w') \<longrightarrow>
      FromTryCatch fn None w = (Inr (if t = Undefined then Err EMPTY else Err t), w')) \<and>
   (fn w = (Inl t, w') \<and> m t w' = (Inr x, w'') \<longrightarrow>
      FromTryCatch fn (Some m) w = (Inr (if x = Undefined then Err EMPTY else Err x), w'')) \<and>
   FromTryCatch (returns (JNum 42)) None w = (Inr (Ok (JNum 42)), w) \<and>
   FromTryCatch (throws (JStr ''boom'')) None w = (Inr (Err (JStr ''boom'')), w)"
  by (simp add: FromTryCatch_def andThen_def Result_Ok_def Result_Err_def)

theorem FromTryCatch_spec_witness:
  "returns (JNum 42) () = (Inr (JNum 42), ()) \<and>
   FromTryCatch (returns (JNum 42)) (Some exclaim) () = (Inr (Ok (JNum 42)), ()) \<and>
   throws (JStr ''boom'') () = (Inl (JStr ''boom''), ()) \<and>
   FromTryCatch (throws (JStr ''boom'')) None () = (Inr (Err (JStr ''boom'')), ()) \<and>
   exclaim (JStr ''boom'') () = (Inr (JStr ''boom!''), ()) \<and>
   FromTryCatch (throws (JStr ''boom'')) (Some exclaim) () = (Inr (Err (JStr ''boom!'')), ())"
  using FromTryCatch_spec [of "returns (JNum 42)" "()" "JNum 42" "()" "Some exclaim"
                              "JStr ''boom''" exclaim "JStr ''boom!''" "()"]
        FromTryCatch_spec [of "throws (JStr ''boom'')" "()" "JNum 42" "()" "Some exclaim"
                              "JStr ''boom''" exclaim "JStr ''boom!''" "()"]
  by (simp add: exclaim_def)

section \<open>The laws of \<open>chain\<close> and \<open>map\<close>\<close>

text \<open>
  C1, as stated: for every value \<open>v\<close> and every function \<open>f\<close> returning a \<open>Result\<close>,
  \<open>Ok(v).chain(f)\<close> equals \<open>f(v)\<close>. This fails at \<open>v = undefined\<close>: \<open>Ok(undefined)\<close> holds the
  empty sentinel, so \<open>f\<close> is applied to the sentinel, and a function that tells the two
  apart gives another result.
\<close>

theorem chain_left_identity_counterexample:
  "chain_res reject_undefined (Result_Ok Undefined) () \<noteq> reject_undefined Undefined ()"
  by (simp add: chain_res_Ok Result_Ok_def reject_undefined_def del: chain_res.simps)

text \<open>
  C1, amended: for every value \<open>v\<close> other than \<open>undefined\<close> and every function \<open>f\<close> returning
  a \<open>Result\<close>, \<open>Ok(v).chain(f)\<close> equals \<open>f(v)\<close>, in what it returns or throws and in its
  effects (\<open>Ok(undefined).chain(f)\<close> equals \<open>f\<close> applied to the empty sentinel); and for every
  \<open>Result\<close> \<open>r\<close> other than a success holding \<open>undefined\<close>, which the factory \<open>Ok\<close> never
  builds, \<open>r.chain(x => Ok(x))\<close> is observably equivalent to \<open>r\<close>.
\<close>

theorem chain_identity_laws:
  "(v \<noteq> Undefined \<longrightarrow> chain_res f (Result_Ok v) w = f v w) \<and>
   chain_res f (Result_Ok Undefined) w = f EMPTY w \<and>
   (r \<noteq> Ok Undefined \<longrightarrow> chain_res (pure Result_Ok) r w = (Inr r, w)) \<and>
   chain_res (pure Result_Ok) (Result_Ok v) w = (Inr (Result_Ok v), w) \<and>
   chain_res (pure Result_Ok) (Result_Err e) w = (Inr (Result_Err e), w)"
proof -
  have payload: "get_value (Result_Ok u) = (if u = Undefined then EMPTY else u)" for u
    by (simp add: Result_Ok_def)
  have left: "chain_res f (Result_Ok u) w = f (get_value (Result_Ok u)) w" for u
    by (simp add: chain_res_Ok Result_Ok_def del: chain_res.simps(1))
  have right: "chain_res (pure Result_Ok) r' w = (Inr r', w)" if "r' \<noteq> Ok Undefined" for r'
    using that by (cases r') (simp_all add: chain_res_Ok Result_Ok_def del: chain_res.simps(1))
  have built: "Result_Ok v \<noteq> Ok Undefined" "Result_Err e \<noteq> Ok Undefined"
    by (simp_all add: Result_Ok_def Result_Err_def)
  show ?thesis
    using left [of v] left [of Undefined] right [of r] right [OF built(1)] right [OF built(2)]
    by (simp add: payload)
qed

theorem chain_identity_laws_witness:
  "JNum 5 \<noteq> Undefined \<and>
   chain_res reject_undefined (Result_Ok (JNum 5)) () = reject_undefined (JNum 5) () \<and>
   Ok (JResult (Ok (JNum 5))) \<noteq> Ok Undefined \<and>
   chain_res (pure Result_Ok) (Ok (JResult (Ok (JNum 5)))) ()
     = (Inr (Ok (JResult (Ok (JNum 5)))), ())"
  using chain_identity_laws [of "JNum 5" reject_undefined "()" "Ok (JResult (Ok (JNum 5)))"]
  by simp

text \<open>
  C2, as stated: for every value \<open>v\<close> and all pure functions \<open>f\<close> and \<open>g\<close>,
  \<open>Ok(v).map(f).map(g)\<close> is observably equivalent to \<open>Ok(v).map(x => g(f(x)))\<close>. This fails
  when \<open>f\<close> returns \<open>undefined\<close> and \<open>g\<close> tells \<open>undefined\<close> from the empty sentinel: the
  first \<open>map\<close> stores the sentinel, so \<open>g\<close> sees the sentinel on the left and \<open>undefined\<close> on
  the right.
\<close>

theorem map_composition_counterexample:
  "andThen (map_res (pure always_undefined) (Result_Ok (JNum 1))) (map_res (pure is_undefined)) ()
     \<noteq> map_res (pure (is_undefined \<circ> always_undefined)) (Result_Ok (JNum 1)) ()"
  by (simp add: andThen_def Result_Ok_def always_undefined_def is_undefined_def)

text \<open>
  C2, amended: for every value \<open>v\<close> and all pure functions \<open>f\<close> and \<open>g\<close>,
  \<open>Ok(v).map(f).map(g)\<close> is observably equivalent to \<open>Ok(v).map(x => g(f(x)))\<close> if and only if
  \<open>f\<close> does not return \<open>undefined\<close> at the payload of \<open>Ok(v)\<close>, or \<open>g\<close> gives the same payload
  at \<open>undefined\<close> and at the empty sentinel; in particular for every \<open>f\<close> that never returns
  \<open>undefined\<close>.
\<close>

theorem map_composition_law:
  "(andThen (map_res (pure f) (Result_Ok v)) (map_res (pure g)) w
      = map_res (pure (g \<circ> f)) (Result_Ok v) w)
   \<longleftrightarrow> (f (get_value (Result_Ok v)) \<noteq> Undefined
        \<or> Result_Ok (g EMPTY) = Result_Ok (g Undefined))"
  by (auto simp: andThen_def Result_Ok_def)

theorem map_composition_law_witness:
  "double (get_value (Result_Ok (JNum 5))) \<noteq> Undefined \<and>
   andThen (map_res (pure double) (Result_Ok (JNum 5))) (map_res (pure successor)) ()
     = map_res (pure (successor \<circ> double)) (Result_Ok (JNum 5)) () \<and>
   map_res (pure (successor \<circ> double)) (Result_Ok (JNum 5)) () = (Inr (Ok (JNum 11)), ())"
proof -
  have payload: "double (get_value (Result_Ok (JNum 5))) \<noteq> Undefined"
    by (simp add: double_def Result_Ok_def)
  have "map_res (pure (successor \<circ> double)) (Result_Ok (JNum 5)) () = (Inr (Ok (JNum 11)), ())"
    by (simp add: andThen_def double_def successor_def Result_Ok_def)
  with payload map_composition_law [of double "JNum 5" successor "()"] show ?thesis
    by blast
qed

section \<open>Identity and immutability of instances\<close>

lemma extends_refl [simp]: "extends s s"
  by (simp add: extends_def)

lemma extends_trans: "extends s s' \<Longrightarrow> extends s' s'' \<Longrightarrow> extends s s''"
  by (auto simp: extends_def)

lemma extends_append [simp]: "extends s (s @ xs)"
  by (simp add: extends_def nth_append)

lemma keeps_returns [simp]: "keeps_store (returns x)"
  by (simp add: keeps_store_def)

lemma keeps_throws [simp]: "keeps_store (throws t)"
  by (simp add: keeps_store_def)

lemma keeps_new [simp]: "keeps_store (new i)"
  by (simp add: keeps_store_def new_def)

lemma keeps_load [simp]: "keeps_store (load this)"
  by (simp add: keeps_store_def load_def)

lemma keeps_andThen:
  assumes "keeps_store m" and "\<And>x. keeps_store (k x)"
  shows "keeps_store (andThen m k)"
  unfolding keeps_store_def
proof
  fix s
  show "extends s (snd (andThen m k s))"
  proof (cases "m s")
    case (Pair out s')
    from assms(1) Pair have first: "extends s s'"
      by (auto simp: keeps_store_def dest: spec [of _ s])
    show ?thesis
    proof (cases out)
      case (Inl t)
      with Pair first show ?thesis by (simp add: andThen_def)
    next
      case (Inr x)
      from assms(2) [of x] have "extends s' (snd (k x s'))"
        by (simp add: keeps_store_def)
      with first have "extends s (snd (k x s'))" by (rule extends_trans)
      with Pair Inr show ?thesis by (simp add: andThen_def)
    qed
  qed
qed

lemma keeps_Result_Ok_ref [simp]: "keeps_store (Result_Ok_ref v)"
  by (simp add: Result_Ok_ref_def)

lemma keeps_Result_Err_ref [simp]: "keeps_store (Result_Err_ref e)"
  by (simp add: Result_Err_ref_def)

lemma keeps_take_ref [simp]: "keeps_store (take_ref this)"
  unfolding take_ref_def by (rule keeps_andThen) (simp_all split: res_object.splits)

lemma keeps_takeErr_ref [simp]: "keeps_store (takeErr_ref this)"
  unfolding takeErr_ref_def by (rule keeps_andThen) (simp_all split: res_object.splits)

lemma keeps_isOk_ref [simp]: "keeps_store (isOk_ref this)"
  unfolding isOk_ref_def by (rule keeps_andThen) (simp_all split: res_object.splits)

lemma keeps_isErr_ref [simp]: "keeps_store (isErr_ref this)"
  unfolding isErr_ref_def by (rule keeps_andThen) (simp_all split: res_object.splits)

lemma keeps_toUnion_ref [simp]: "keeps_store (toUnion_ref this)"
  unfolding toUnion_ref_def by (rule keeps_andThen) simp_all

lemma keeps_unfold_ref [simp]: "keeps_store (unfold_ref this)"
  unfolding unfold_ref_def
  by (auto intro!: keeps_andThen split: res_object.splits rval.splits)

lemma keeps_onOk_ref: "(\<And>x. keeps_store (f x)) \<Longrightarrow> keeps_store (onOk_ref f this)"
  unfolding onOk_ref_def
  by (rule keeps_andThen) (auto split: res_object.splits intro: keeps_andThen)

lemma keeps_onErr_ref: "(\<And>x. keeps_store (f x)) \<Longrightarrow> keeps_store (onErr_ref f this)"
  unfolding onErr_ref_def
  by (rule keeps_andThen) (auto split: res_object.splits intro: keeps_andThen)

lemma keeps_map_ref: "(\<And>x. keeps_store (f x)) \<Longrightarrow> keeps_store (map_ref f this)"
  unfolding map_ref_def
  by (rule keeps_andThen) (auto split: res_object.splits intro: keeps_andThen)

lemma keeps_refine_ref: "(\<And>x. keeps_store (f x)) \<Longrightarrow> keeps_store (refine_ref f this)"
  unfolding refine_ref_def
  by (rule keeps_andThen) (auto split: res_object.splits intro: keeps_andThen)

lemma keeps_chain_ref: "(\<And>x. keeps_store (g x)) \<Longrightarrow> keeps_store (chain_ref g this)"
  unfolding chain_ref_def
  by (rule keeps_andThen) (auto split: res_object.splits intro!: keeps_andThen)

lemma keeps_check_ref: "(\<And>x. keeps_store (p x)) \<Longrightarrow> keeps_store (check_ref p err this)"
  unfolding check_ref_def by (auto intro!: keeps_andThen)

lemma keeps_assert_ref: "(\<And>x. keeps_store (p x)) \<Longrightarrow> keeps_store (assert_ref p err this)"
  unfolding assert_ref_def by (auto intro!: keeps_andThen)

lemma keeps_use_alternative_ref:
  "(\<And>f x. other = DeferredRef f \<Longrightarrow> keeps_store (f x)) \<Longrightarrow> keeps_store arg \<Longrightarrow>
     keeps_store (use_alternative_ref other arg)"
  by (cases other) (auto intro!: keeps_andThen)

lemma keeps_or_ref:
  "(\<And>f x. other = DeferredRef f \<Longrightarrow> keeps_store (f x)) \<Longrightarrow> keeps_store (or_ref other this)"
  unfolding or_ref_def by (auto intro!: keeps_andThen keeps_use_alternative_ref)

lemma keeps_orIf_ref:
  "(\<And>x. keeps_store (p x)) \<Longrightarrow> (\<And>f x. other = DeferredRef f \<Longrightarrow> keeps_store (f x)) \<Longrightarrow>
     keeps_store (orIf_ref p other this)"
  unfolding orIf_ref_def by (auto intro!: keeps_andThen keeps_use_alternative_ref)

lemma load_at: "this < length s \<Longrightarrow> load this s = (Inr (s ! this), s)"
  by (simp add: load_def)

lemma load_new: "load (length s) (s @ [i]) = (Inr i, s @ [i])"
  by (simp add: load_def)

lemma on_Err_receiver:
  "this < length s \<Longrightarrow> s ! this = ErrInstance e \<Longrightarrow>
     map_ref f this s = (Inr this, s) \<and> chain_ref g this s = (Inr this, s) \<and>
     check_ref p err this s = (Inr this, s) \<and> assert_ref p err this s = (Inr this, s) \<and>
     onOk_ref f this s = (Inr this, s) \<and> unfold_ref this s = (Inr this, s) \<and>
     or_ref (LiteralRef a) this s = (Inr a, s) \<and> or_ref (DeferredRef g) this s = g e s"
  by (simp add: map_ref_def chain_ref_def check_ref_def assert_ref_def onOk_ref_def
        unfold_ref_def toUnion_ref_def isErr_ref_def or_ref_def isOk_ref_def takeErr_ref_def
        andThen_def load_at)

lemma on_Err_after_callback:
  "this < length s \<Longrightarrow> s ! this = ErrInstance e \<Longrightarrow> f e s = (Inr x, s') \<Longrightarrow>
     refine_ref f this s
       = (Inr (length s'), s' @ [ErrInstance (if x = RUndefined then REMPTY else x)]) \<and>
     onErr_ref f this s = (Inr this, s')"
  by (simp add: refine_ref_def onErr_ref_def Result_Err_ref_def new_def andThen_def load_at)

lemma orIf_on_Err_withheld:
  "this < length s \<Longrightarrow> s ! this = ErrInstance e \<Longrightarrow> p e s = (Inr False, s') \<Longrightarrow>
     orIf_ref p other this s = (Inr this, s')"
  by (simp add: orIf_ref_def isOk_ref_def takeErr_ref_def andThen_def load_at)

lemma orIf_on_Err_replaced:
  assumes "this < length s" and "s ! this = ErrInstance e" and "p e s = (Inr True, s')"
    and "extends s s'"
  shows "orIf_ref p (LiteralRef a) this s = (Inr a, s') \<and>
         orIf_ref p (DeferredRef g) this s = g e s'"
proof -
  from assms(1,2,4) have "this < length s'" "s' ! this = ErrInstance e"
    by (auto simp: extends_def)
  with assms(1-3) show ?thesis
    by (simp add: orIf_ref_def isOk_ref_def takeErr_ref_def andThen_def load_at)
qed

lemma on_Ok_receiver:
  "this < length s \<Longrightarrow> s ! this = OkInstance v \<Longrightarrow>
     refine_ref f this s = (Inr this, s) \<and> or_ref other this s = (Inr this, s) \<and>
     orIf_ref p other this s = (Inr this, s) \<and> onErr_ref f this s = (Inr this, s) \<and>
     unfold_ref this s = (case v of RInstance inner \<Rightarrow> (Inr inner, s) | _ \<Rightarrow> (Inr this, s))"
  by (simp add: refine_ref_def or_ref_def orIf_ref_def onErr_ref_def isOk_ref_def
        unfold_ref_def toUnion_ref_def andThen_def load_at split: rval.splits)

lemma on_Ok_after_callback:
  "this < length s \<Longrightarrow> s ! this = OkInstance v \<Longrightarrow> f v s = (Inr x, s') \<Longrightarrow>
     map_ref f this s
       = (Inr (length s'), s' @ [OkInstance (if x = RUndefined then REMPTY else x)]) \<and>
     onOk_ref f this s = (Inr this, s')"
  by (simp add: map_ref_def onOk_ref_def Result_Ok_ref_def new_def andThen_def load_at)

lemma check_on_Ok_passed:
  "this < length s \<Longrightarrow> s ! this = OkInstance v \<Longrightarrow> p v s = (Inr True, s') \<Longrightarrow>
     check_ref p err this s = (Inr this, s') \<and> assert_ref p err this s = (Inr this, s')"
  by (simp add: check_ref_def assert_ref_def isErr_ref_def take_ref_def andThen_def load_at)

lemma check_on_Ok_failed:
  "this < length s \<Longrightarrow> s ! this = OkInstance v \<Longrightarrow> p v s = (Inr False, s') \<Longrightarrow>
     check_ref p err this s
       = (Inr (length s'), s' @ [ErrInstance (if err = RUndefined then REMPTY else err)]) \<and>
     assert_ref p err this s
       = (Inr (length s'), s' @ [ErrInstance (if err = RUndefined then REMPTY else err)])"
  by (simp add: check_ref_def assert_ref_def isErr_ref_def take_ref_def Result_Err_ref_def
        new_def andThen_def load_at)

lemma chain_on_Ok:
  "this < length s \<Longrightarrow> s ! this = OkInstance v \<Longrightarrow> g v s = (Inr r, s') \<Longrightarrow>
     chain_ref g this s = (Inr r, s' @ [OkInstance (RInstance r)])"
  by (simp add: chain_ref_def Result_Ok_ref_def new_def unfold_ref_def toUnion_ref_def
        andThen_def load_at load_new)

text \<open>
  C10, as stated: every combinator produces a new \<open>Result\<close> instance. This fails for \<open>map\<close>
  on a failure (and wherever else a method returns \<open>this\<close>): in a store holding the one
  instance \<open>Err("e")\<close> at reference 0, \<open>map\<close> returns reference 0, the receiver itself, and
  builds nothing.
\<close>

theorem map_returns_receiver_counterexample:
  "map_ref double_ref 0 [ErrInstance (RStr ''e'')] = (Inr 0, [ErrInstance (RStr ''e'')])"
  by (simp add: map_ref_def andThen_def load_def)

text \<open>
  C10, amended: every \<open>Result\<close> is immutable: once constructed its variant and payload never
  change, and no combinator (\<open>map\<close>, \<open>refine\<close>, \<open>chain\<close>, \<open>check\<close>, \<open>assert\<close>, \<open>or\<close>, \<open>orIf\<close>,
  \<open>unfold\<close>, \<open>onOk\<close>, \<open>onErr\<close>) mutates the receiver or any other instance, given callbacks
  that mutate none. A combinator produces a new \<open>Result\<close> instance, at a reference that was
  not in the store, where it has a payload of its own to hold: \<open>map\<close> on a success (the
  mapped payload), \<open>refine\<close> on a failure (the mapped error), \<open>check\<close> and \<open>assert\<close> on a
  success whose predicate fails (the error given, or the empty sentinel). Everywhere else
  it returns an instance that exists already:
  \<^item> the receiver itself: \<open>map\<close>, \<open>chain\<close>, \<open>check\<close>, \<open>assert\<close>, \<open>onOk\<close> and \<open>unfold\<close> on a
    failure; \<open>refine\<close>, \<open>or\<close>, \<open>orIf\<close> and \<open>onErr\<close> on a success; \<open>check\<close> and \<open>assert\<close> when
    the predicate holds; \<open>orIf\<close> on a failure when the predicate fails; \<open>onOk\<close> on a
    success and \<open>onErr\<close> on a failure once the effect has returned; \<open>unfold\<close> on a success
    whose payload is not a \<open>Result\<close>;
  \<^item> the nested instance: \<open>unfold\<close> on a success whose payload is a \<open>Result\<close>;
  \<^item> the alternative, or the instance the alternative function returns: \<open>or\<close> on a
    failure, and \<open>orIf\<close> on a failure when the predicate holds;
  \<^item> the instance its callback returns: \<open>chain\<close> on a success, which wraps that instance
    in a new \<open>Ok\<close> on the way and unfolds it again.
\<close>

theorem combinators_never_mutate:
  "((\<forall>x. keeps_store (f x)) \<and> (\<forall>x. keeps_store (g x)) \<and> (\<forall>x. keeps_store (p x)) \<longrightarrow>
      keeps_store (map_ref f recv) \<and> keeps_store (refine_ref f recv) \<and>
      keeps_store (chain_ref g recv) \<and> keeps_store (check_ref p err recv) \<and>
      keeps_store (assert_ref p err recv) \<and> keeps_store (or_ref (LiteralRef a) recv) \<and>
      keeps_store (or_ref (DeferredRef g) recv) \<and>
      keeps_store (orIf_ref p (LiteralRef a) recv) \<and>
      keeps_store (orIf_ref p (DeferredRef g) recv) \<and> keeps_store (unfold_ref recv) \<and>
      keeps_store (onOk_ref f recv) \<and> keeps_store (onErr_ref f recv)) \<and>
   (recv < length s \<and> s ! recv = ErrInstance e \<longrightarrow>
      map_ref f recv s = (Inr recv, s) \<and> chain_ref g recv s = (Inr recv, s) \<and>
      check_ref p err recv s = (Inr recv, s) \<and> assert_ref p err recv s = (Inr recv, s) \<and>
      onOk_ref f recv s = (Inr recv, s) \<and> unfold_ref recv s = (Inr recv, s) \<and>
      or_ref (LiteralRef a) recv s = (Inr a, s) \<and> or_ref (DeferredRef g) recv s = g e s) \<and>
   (recv < length s \<and> s ! recv = ErrInstance e \<and> f e s = (Inr x, s') \<longrightarrow>
      refine_ref f recv s
        = (Inr (length s'), s' @ [ErrInstance (if x = RUndefined then REMPTY else x)]) \<and>
      onErr_ref f recv s = (Inr recv, s')) \<and>
   (recv < length s \<and> s ! recv = ErrInstance e \<and> p e s = (Inr False, s') \<longrightarrow>
      orIf_ref p other recv s = (Inr recv, s')) \<and>
   (recv < length s \<and> s ! recv = ErrInstance e \<and> p e s = (Inr True, s') \<and> extends s s' \<longrightarrow>
      orIf_ref p (LiteralRef a) recv s = (Inr a, s') \<and>
      orIf_ref p (DeferredRef g) recv s = g e s') \<and>
   (recv < length s \<and> s ! recv = OkInstance v \<longrightarrow>
      refine_ref f recv s = (Inr recv, s) \<and> or_ref other recv s = (Inr recv, s) \<and>
      orIf_ref p other recv s = (Inr recv, s) \<and> onErr_ref f recv s = (Inr recv, s) \<and>
      unfold_ref recv s
        = (case v of RInstance inner \<Rightarrow> (Inr inner, s) | _ \<Rightarrow> (Inr recv, s))) \<and>
   (recv < length s \<and> s ! recv = OkInstance v \<and> f v s = (Inr x, s') \<longrightarrow>
      map_ref f recv s
        = (Inr (length s'), s' @ [OkInstance (if x = RUndefined then REMPTY else x)]) \<and>
      onOk_ref f recv s = (Inr recv, s')) \<and>
   (recv < length s \<and> s ! recv = OkInstance v \<and> p v s = (Inr True, s') \<longrightarrow>
      check_ref p err recv s = (Inr recv, s') \<and> assert_ref p err recv s = (Inr recv, s')) \<and>
   (recv < length s \<and> s ! recv = OkInstance v \<and> p v s = (Inr False, s') \<longrightarrow>
      check_ref p err recv s
        = (Inr (length s'), s' @ [ErrInstance (if err = RUndefined then REMPTY else err)]) \<and>
      assert_ref p err recv s
        = (Inr (length s'), s' @ [ErrInstance (if err = RUndefined then REMPTY else err)])) \<and>
   (recv < length s \<and> s ! recv = OkInstance v \<and> g v s = (Inr r, s') \<longrightarrow>
      chain_ref g recv s = (Inr r, s' @ [OkInstance (RInstance r)]))"
proof -
  have kept: "keeps_store (map_ref f recv) \<and> keeps_store (refine_ref f recv) \<and>
      keeps_store (chain_ref g recv) \<and> keeps_store (check_ref p err recv) \<and>
      keeps_store (assert_ref p err recv) \<and> keeps_store (or_ref (LiteralRef a) recv) \<and>
      keeps_store (or_ref (DeferredRef g) recv) \<and>
      keeps_store (orIf_ref p (LiteralRef a) recv) \<and>
      keeps_store (orIf_ref p (DeferredRef g) recv) \<and> keeps_store (unfold_ref recv) \<and>
      keeps_store (onOk_ref f recv) \<and> keeps_store (onErr_ref f recv)"
    if "\<forall>x. keeps_store (f x)" "\<forall>x. keeps_store (g x)" "\<forall>x. keeps_store (p x)"
    using that
    by (auto intro!: keeps_map_ref keeps_refine_ref keeps_chain_ref keeps_check_ref
          keeps_assert_ref keeps_or_ref keeps_orIf_ref keeps_onOk_ref keeps_onErr_ref)
  show ?thesis
    using kept on_Err_receiver [of recv s e f g p err a]
      on_Err_after_callback [of recv s e f x s'] orIf_on_Err_withheld [of recv s e p s' other]
      orIf_on_Err_replaced [of recv s e p s' a g] on_Ok_receiver [of recv s v f other p]
      on_Ok_after_callback [of recv s v f x s'] check_on_Ok_passed [of recv s v p s' err]
      check_on_Ok_failed [of recv s v p s' err] chain_on_Ok [of recv s v g r s']
    by blast
qed

theorem combinators_never_mutate_witness:
  "(\<forall>x. keeps_store (double_ref x)) \<and> (\<forall>x. keeps_store (Result_Ok_ref x)) \<and>
   (\<forall>x. keeps_store (positive_ref x)) \<and>
   keeps_store (map_ref double_ref 0) \<and> keeps_store (chain_ref Result_Ok_ref 0) \<and>
   keeps_store (check_ref positive_ref (RStr ''low'') 0) \<and>
   0 < length sample_store \<and> sample_store ! 0 = OkInstance (RNum 5) \<and>
   double_ref (RNum 5) sample_store = (Inr (RNum 10), sample_store) \<and>
   map_ref double_ref 0 sample_store = (Inr 3, sample_store @ [OkInstance (RNum 10)]) \<and>
   onOk_ref double_ref 0 sample_store = (Inr 0, sample_store) \<and>
   refine_ref double_ref 0 sample_store = (Inr 0, sample_store) \<and>
   unfold_ref 0 sample_store = (Inr 0, sample_store) \<and>
   positive_ref (RNum 5) sample_store = (Inr True, sample_store) \<and>
   check_ref positive_ref (RStr ''low'') 0 sample_store = (Inr 0, sample_store) \<and>
   not_positive_ref (RNum 5) sample_store = (Inr False, sample_store) \<and>
   check_ref not_positive_ref (RStr ''low'') 0 sample_store
     = (Inr 3, sample_store @ [ErrInstance (RStr ''low'')]) \<and>
   Result_Ok_ref (RNum 5) sample_store = (Inr 3, sample_store @ [OkInstance (RNum 5)]) \<and>
   chain_ref Result_Ok_ref 0 sample_store
     = (Inr 3, sample_store @ [OkInstance (RNum 5), OkInstance (RInstance 3)]) \<and>
   1 < length sample_store \<and> sample_store ! 1 = ErrInstance (RStr ''e'') \<and>
   map_ref double_ref 1 sample_store = (Inr 1, sample_store) \<and>
   or_ref (LiteralRef 0) 1 sample_store = (Inr 0, sample_store) \<and>
   double_ref (RStr ''e'') sample_store = (Inr (RStr ''e''), sample_store) \<and>
   refine_ref double_ref 1 sample_store = (Inr 3, sample_store @ [ErrInstance (RStr ''e'')]) \<and>
   onErr_ref double_ref 1 sample_store = (Inr 1, sample_store) \<and>
   positive_ref (RStr ''e'') sample_store = (Inr False, sample_store) \<and>
   orIf_ref positive_ref (LiteralRef 0) 1 sample_store = (Inr 1, sample_store) \<and>
   not_positive_ref (RStr ''e'') sample_store = (Inr True, sample_store) \<and>
   extends sample_store sample_store \<and>
   orIf_ref not_positive_ref (LiteralRef 0) 1 sample_store = (Inr 0, sample_store) \<and>
   orIf_ref not_positive_ref (DeferredRef Result_Ok_ref) 1 sample_store
     = (Inr 3, sample_store @ [OkInstance (RStr ''e'')]) \<and>
   2 < length sample_store \<and> sample_store ! 2 = OkInstance (RInstance 0) \<and>
   unfold_ref 2 sample_store = (Inr 0, sample_store)"
proof -
  have callbacks: "\<forall>x. keeps_store (double_ref x)" "\<forall>x. keeps_store (Result_Ok_ref x)"
    "\<forall>x. keeps_store (positive_ref x)"
    by (simp_all add: double_ref_def positive_ref_def)
  have store: "0 < length sample_store" "sample_store ! 0 = OkInstance (RNum 5)"
    "1 < length sample_store" "sample_store ! 1 = ErrInstance (RStr ''e'')"
    "2 < length sample_store" "sample_store ! 2 = OkInstance (RInstance 0)"
    "length sample_store = 3" "extends sample_store sample_store"
    by (simp_all add: sample_store_def)
  have calls: "double_ref (RNum 5) sample_store = (Inr (RNum 10), sample_store)"
    "double_ref (RStr ''e'') sample_store = (Inr (RStr ''e''), sample_store)"
    "positive_ref (RNum 5) sample_store = (Inr True, sample_store)"
    "not_positive_ref (RNum 5) sample_store = (Inr False, sample_store)"
    "positive_ref (RStr ''e'') sample_store = (Inr False, sample_store)"
    "not_positive_ref (RStr ''e'') sample_store = (Inr True, sample_store)"
    "Result_Ok_ref (RNum 5) sample_store = (Inr 3, sample_store @ [OkInstance (RNum 5)])"
    "Result_Ok_ref (RStr ''e'') sample_store = (Inr 3, sample_store @ [OkInstance (RStr ''e'')])"
    by (simp_all add: double_ref_def positive_ref_def not_positive_ref_def Result_Ok_ref_def
          new_def store(7))
  have on_success: "keeps_store (map_ref double_ref 0)" "keeps_store (chain_ref Result_Ok_ref 0)"
    "keeps_store (check_ref positive_ref (RStr ''low'') 0)"
    "map_ref double_ref 0 sample_store = (Inr 3, sample_store @ [OkInstance (RNum 10)])"
    "onOk_ref double_ref 0 sample_store = (Inr 0, sample_store)"
    "refine_ref double_ref 0 sample_store = (Inr 0, sample_store)"
    "unfold_ref 0 sample_store = (Inr 0, sample_store)"
    "check_ref positive_ref (RStr ''low'') 0 sample_store = (Inr 0, sample_store)"
    using callbacks store calls
      combinators_never_mutate [where f = double_ref and g = Result_Ok_ref
        and p = positive_ref and recv = 0 and s = sample_store and v = "RNum 5"
        and x = "RNum 10" and s' = sample_store and err = "RStr ''low''"]
    by simp_all
  have failed_check: "check_ref not_positive_ref (RStr ''low'') 0 sample_store
      = (Inr 3, sample_store @ [ErrInstance (RStr ''low'')])"
    using store calls
      combinators_never_mutate [where p = not_positive_ref and recv = 0 and s = sample_store
        and v = "RNum 5" and s' = sample_store and err = "RStr ''low''"]
    by simp
  have chained: "chain_ref Result_Ok_ref 0 sample_store
      = (Inr 3, sample_store @ [OkInstance (RNum 5), OkInstance (RInstance 3)])"
    using store calls
      combinators_never_mutate [where g = Result_Ok_ref and recv = 0 and s = sample_store
        and v = "RNum 5" and r = 3 and s' = "sample_store @ [OkInstance (RNum 5)]"]
    by simp
  have on_failure: "map_ref double_ref 1 sample_store = (Inr 1, sample_store)"
    "or_ref (LiteralRef 0) 1 sample_store = (Inr 0, sample_store)"
    "refine_ref double_ref 1 sample_store = (Inr 3, sample_store @ [ErrInstance (RStr ''e'')])"
    "onErr_ref double_ref 1 sample_store = (Inr 1, sample_store)"
    "orIf_ref positive_ref (LiteralRef 0) 1 sample_store = (Inr 1, sample_store)"
    using store calls
      combinators_never_mutate [where f = double_ref and p = positive_ref and recv = 1
        and s = sample_store and e = "RStr ''e''" and x = "RStr ''e''" and s' = sample_store
        and a = 0 and other = "LiteralRef 0"]
    by simp_all
  have replaced: "orIf_ref not_positive_ref (LiteralRef 0) 1 sample_store = (Inr 0, sample_store)"
    "orIf_ref not_positive_ref (DeferredRef Result_Ok_ref) 1 sample_store
      = (Inr 3, sample_store @ [OkInstance (RStr ''e'')])"
    using store calls
      combinators_never_mutate [where p = not_positive_ref and g = Result_Ok_ref and recv = 1
        and s = sample_store and e = "RStr ''e''" and s' = sample_store and a = 0]
    by simp_all
  have nested: "unfold_ref 2 sample_store = (Inr 0, sample_store)"
    using store
      combinators_never_mutate [where recv = 2 and s = sample_store and v = "RInstance 0"]
    by simp
  show ?thesis
    using callbacks store(1-6,8) calls(1-7) on_success failed_check chained on_failure replaced
      nested
    by simp
qed

end
